theory Spec2Isabelle
  imports Main
begin

section \<open>JavaScript values used by the extension\<close>

text \<open>
  A JavaScript number is an IEEE double. Every number the clock code handles is an epoch
  count in milliseconds (\<open>Date.now()\<close>, \<open>getTime()\<close>, the result of
  \<open>Number.parseInt\<close>) or a sum or difference of such counts, so the values that occur
  are the doubles that are integers, the two infinities and NaN. \<open>Num i\<close> stands for
  the double of value \<open>i\<close>. \<open>toDouble\<close> rounds an exact integer result to the nearest
  double, ties to the even significand: integers up to \<open>2^53\<close> in magnitude are kept,
  larger ones keep 53 significant bits, and a magnitude that rounds to \<open>2^1024\<close> or
  more is an infinity. (The sign of zero is not modelled; no result here depends on it.)

  A string is a list of characters, each one UTF-16 code unit below 256.
\<close>

datatype jsnum = Num int | PosInf | NegInf | NaN

text \<open>The number of low bits a magnitude loses when it is cut to 53 significant bits.\<close>

fun exponentShift :: "nat \<Rightarrow> nat" where
  "exponentShift a = (if a < 9007199254740992 then 0 else 1 + exponentShift (a div 2))"

declare exponentShift.simps [simp del]

definition roundMagnitude :: "nat \<Rightarrow> nat" where
  "roundMagnitude a =
     (let k = exponentShift a;
          q = a div 2 ^ k;
          r = a mod 2 ^ k;
          q' = (if 2 * r > 2 ^ k \<or> (2 * r = 2 ^ k \<and> odd q) then q + 1 else q)
      in q' * 2 ^ k)"

definition overflowBound :: nat where
  "overflowBound = 2 ^ 1024"

definition toDouble :: "int \<Rightarrow> jsnum" where
  "toDouble n =
     (let m = roundMagnitude (nat \<bar>n\<bar>) in
      if m \<ge> overflowBound then (if n < 0 then NegInf else PosInf)
      else Num (if n < 0 then - int m else int m))"

text \<open>
  Addition and subtraction of doubles: the exact result, rounded; NaN with a NaN operand
  and for the difference of equal infinities.
\<close>

fun num_add :: "jsnum \<Rightarrow> jsnum \<Rightarrow> jsnum" where
  "num_add (Num a) (Num b) = toDouble (a + b)"
| "num_add NaN y = NaN"
| "num_add x NaN = NaN"
| "num_add PosInf NegInf = NaN"
| "num_add NegInf PosInf = NaN"
| "num_add PosInf y = PosInf"
| "num_add x PosInf = PosInf"
| "num_add NegInf y = NegInf"
| "num_add x NegInf = NegInf"

fun num_sub :: "jsnum \<Rightarrow> jsnum \<Rightarrow> jsnum" where
  "num_sub (Num a) (Num b) = toDouble (a - b)"
| "num_sub NaN y = NaN"
| "num_sub x NaN = NaN"
| "num_sub PosInf PosInf = NaN"
| "num_sub NegInf NegInf = NaN"
| "num_sub PosInf y = PosInf"
| "num_sub x PosInf = NegInf"
| "num_sub NegInf y = NegInf"
| "num_sub x NegInf = PosInf"

text \<open>A call that may raise: \<open>Returns v\<close>, or \<open>Throws msg\<close>.\<close>

datatype 'a attempt = Returns 'a | Throws string

subsection \<open>Date objects\<close>

text \<open>
  A Date object is its time value. \<open>TimeClip\<close> is the language's range check: a number
  that is not finite or is further than 8.64e15 ms from the epoch is not a date, and the
  object is an Invalid Date (time value NaN).
\<close>

datatype date = DateObj (getTime: jsnum)

definition maxTime :: int where
  "maxTime = 8640000000000000"

definition TimeClip :: "jsnum \<Rightarrow> jsnum" where
  "TimeClip t = (case t of Num i \<Rightarrow> if \<bar>i\<bar> > maxTime then NaN else Num i
                 | _ \<Rightarrow> NaN)"

text \<open>The arguments a page can pass to the Date constructor.\<close>

datatype jsval = VUndefined | VNull | VBool bool | VNum jsnum | VStr string | VDate date

text \<open>
  What the page's runtime supplies and the repository does not define: the parser behind
  \<open>new Date(string)\<close> (NaN for a string that is not a date), the construction of a
  date from two or more components in local time, the rendering of a time value by a
  genuine \<open>Intl.DateTimeFormat\<close> object (a string, a list of parts, a range) and
  \<open>Date.prototype.toString\<close>.
\<close>

record host =
  Date_parse :: "string \<Rightarrow> jsnum"
  Date_components :: "jsval list \<Rightarrow> jsnum"
  DateTimeFormat_format :: "jsnum \<Rightarrow> string attempt"
  DateTimeFormat_formatToParts :: "jsnum \<Rightarrow> string list attempt"
  DateTimeFormat_formatRange :: "jsnum \<Rightarrow> jsnum \<Rightarrow> string attempt"
  Date_toString :: "jsnum \<Rightarrow> string"

text \<open>
  \<open>new OriginalDate(...args)\<close> at the real instant \<open>now\<close>: no argument gives the
  current instant; one argument is a date (its time value is taken), a string (parsed)
  or is converted to a number and clipped; more arguments are calendar components.
\<close>

fun OriginalDate :: "host \<Rightarrow> int \<Rightarrow> jsval list \<Rightarrow> date" where
  "OriginalDate h now [] = DateObj (Num now)"
| "OriginalDate h now [VDate d] = DateObj (TimeClip (getTime d))"
| "OriginalDate h now [VStr s] = DateObj (Date_parse h s)"
| "OriginalDate h now [VNum n] = DateObj (TimeClip n)"
| "OriginalDate h now [VUndefined] = DateObj NaN"
| "OriginalDate h now [VNull] = DateObj (Num 0)"
| "OriginalDate h now [VBool b] = DateObj (Num (if b then 1 else 0))"
| "OriginalDate h now args = DateObj (Date_components h args)"

definition OriginalDate_now :: "int \<Rightarrow> jsnum" where
  "OriginalDate_now now = Num now"

subsection \<open>Number.parseInt with no radix\<close>

text \<open>
  Leading white space is skipped, one sign is read, a \<open>0x\<close> or \<open>0X\<close> prefix selects
  radix 16, and the longest run of digits of the radix is the value, as a double; with
  no digit the result is NaN. It never raises. (For more than 20 significant decimal
  digits the language lets an implementation round less exactly than is done here.)

  The white-space code units of the language: tab, line feed, vertical tab, form feed,
  carriage return, space, no-break space, and those above 255, which no character of
  this model reaches.
\<close>

definition whiteSpaceCodeUnits :: "nat list" where
  "whiteSpaceCodeUnits =
     [0x09, 0x0A, 0x0B, 0x0C, 0x0D, 0x20, 0xA0, 0x1680,
      0x2000, 0x2001, 0x2002, 0x2003, 0x2004, 0x2005, 0x2006, 0x2007, 0x2008, 0x2009, 0x200A,
      0x2028, 0x2029, 0x202F, 0x205F, 0x3000, 0xFEFF]"

definition isWhiteSpace :: "char \<Rightarrow> bool" where
  "isWhiteSpace c = ((of_char c :: nat) \<in> set whiteSpaceCodeUnits)"

definition digitValue :: "char \<Rightarrow> nat option" where
  "digitValue c =
     (let n = of_char c :: nat in
      if 48 \<le> n \<and> n \<le> 57 then Some (n - 48)
      else if 97 \<le> n \<and> n \<le> 122 then Some (n - 87)
      else if 65 \<le> n \<and> n \<le> 90 then Some (n - 55)
      else None)"

definition isRadixDigit :: "nat \<Rightarrow> char \<Rightarrow> bool" where
  "isRadixDigit R c = (case digitValue c of None \<Rightarrow> False | Some d \<Rightarrow> d < R)"

definition digitsValue :: "nat \<Rightarrow> string \<Rightarrow> nat" where
  "digitsValue R Z = foldl (\<lambda>acc c. acc * R + (case digitValue c of None \<Rightarrow> 0 | Some d \<Rightarrow> d)) 0 Z"

definition stripSign :: "string \<Rightarrow> int \<times> string" where
  "stripSign S = (case S of [] \<Rightarrow> (1, [])
                  | c # r \<Rightarrow> if c = CHR ''-'' then (-1, r)
                            else if c = CHR ''+'' then (1, r) else (1, S))"

definition stripPrefix :: "string \<Rightarrow> nat \<times> string" where
  "stripPrefix S = (case S of
       c # x # r \<Rightarrow> if c = CHR ''0'' \<and> (x = CHR ''x'' \<or> x = CHR ''X'') then (16, r) else (10, S)
     | _ \<Rightarrow> (10, S))"

definition parseInt :: "string \<Rightarrow> jsnum" where
  "parseInt inputString =
     (let S = dropWhile isWhiteSpace inputString;
          (sign, S1) = stripSign S;
          (R, S2) = stripPrefix S1;
          Z = takeWhile (isRadixDigit R) S2
      in if Z = [] then NaN else toDouble (sign * int (digitsValue R Z)))"

section \<open>The Clock Engine (replace_date.ts)\<close>

text \<open>
  The session storage of a browsing context: a key-value map, or blocked (sandboxed
  frames, privacy settings), in which case every access raises.
\<close>

datatype session = Blocked | Items "string \<rightharpoonup> string"

definition FAKE_DATE_STORAGE_KEY :: string where
  "FAKE_DATE_STORAGE_KEY = ''timeTravelDate''"

definition TICK_START_STORAGE_KEY :: string where
  "TICK_START_STORAGE_KEY = ''timeTravelTickStartTimestamp''"

fun getItem :: "session \<Rightarrow> string \<Rightarrow> string option attempt" where
  "getItem Blocked key = Throws ''SecurityError''"
| "getItem (Items m) key = Returns (m key)"

definition getFromStorage :: "session \<Rightarrow> string \<Rightarrow> string option" where
  "getFromStorage st key = (case getItem st key of Returns v \<Rightarrow> v | Throws e \<Rightarrow> None)"

text \<open>
  The call \<open>Number.parseInt(startTimestamp)\<close> as the try block sees it: the language
  defines no raising branch for a string argument.
\<close>

definition Number_parseInt :: "string \<Rightarrow> jsnum attempt" where
  "Number_parseInt s = Returns (parseInt s)"

definition getTickStartTimestamp :: "session \<Rightarrow> jsnum option" where
  "getTickStartTimestamp st =
     (case getFromStorage st TICK_START_STORAGE_KEY of
        None \<Rightarrow> None
      | Some startTimestamp \<Rightarrow>
          (case Number_parseInt startTimestamp of
             Returns n \<Rightarrow> Some n
           | Throws e \<Rightarrow> None))"

definition fakeNowDate :: "host \<Rightarrow> session \<Rightarrow> int \<Rightarrow> date" where
  "fakeNowDate h st now =
     (case getFromStorage st FAKE_DATE_STORAGE_KEY of
        Some fakeDate \<Rightarrow>
          (let fakeDateObject = OriginalDate h now [VStr fakeDate] in
           case getTickStartTimestamp st of
             None \<Rightarrow> fakeDateObject
           | Some startTimestamp \<Rightarrow>
               (let elapsed = num_sub (OriginalDate_now now) startTimestamp
                in OriginalDate h now [VNum (num_add (getTime fakeDateObject) elapsed)]))
      | None \<Rightarrow> OriginalDate h now [])"

text \<open>
  The replacement constructor, while it is installed as the global \<open>Date\<close>. Called
  without \<open>new\<close> it returns the string of \<open>new Date()\<close>; with \<open>new\<close> and no argument it
  builds the date from \<open>fakeNowDate()\<close>; any other argument list goes to the original
  constructor as it is. (The prototype of the result is not part of the model.)
\<close>

definition FakeDate :: "host \<Rightarrow> session \<Rightarrow> int \<Rightarrow> bool \<Rightarrow> jsval list \<Rightarrow> jsval" where
  "FakeDate h st now new_target args =
     (if \<not> new_target
      then VStr (Date_toString h (getTime (OriginalDate h now [VDate (fakeNowDate h st now)])))
      else let args' = (if length args = 0 then [VDate (fakeNowDate h st now)] else args)
           in VDate (OriginalDate h now args'))"

text \<open>
  The argument of \<open>format\<close> and \<open>formatToParts\<close>: left out (or undefined), null, a
  date or a number. A genuine formatter renders the current instant when it is left out
  and the number the argument converts to otherwise.
\<close>

datatype format_arg = Omitted | ANull | ADate date | ANumber jsnum

fun ToNumber :: "int \<Rightarrow> format_arg \<Rightarrow> jsnum" where
  "ToNumber now Omitted = Num now"
| "ToNumber now ANull = Num 0"
| "ToNumber now (ADate d) = getTime d"
| "ToNumber now (ANumber n) = n"

definition original_format :: "host \<Rightarrow> int \<Rightarrow> format_arg \<Rightarrow> string attempt" where
  "original_format h now date = DateTimeFormat_format h (ToNumber now date)"

definition original_formatToParts :: "host \<Rightarrow> int \<Rightarrow> format_arg \<Rightarrow> string list attempt" where
  "original_formatToParts h now date = DateTimeFormat_formatToParts h (ToNumber now date)"

definition original_formatRange :: "host \<Rightarrow> int \<Rightarrow> format_arg \<Rightarrow> format_arg \<Rightarrow> string attempt" where
  "original_formatRange h now startDate endDate =
     (if startDate = Omitted \<or> endDate = Omitted then Throws ''TypeError''
      else DateTimeFormat_formatRange h (ToNumber now startDate) (ToNumber now endDate))"

fun nullish :: "format_arg \<Rightarrow> bool" where
  "nullish Omitted = True"
| "nullish ANull = True"
| "nullish _ = False"

text \<open>The methods of the replacement formatter: \<open>date ?? fakeNowDate()\<close>.\<close>

definition format :: "host \<Rightarrow> session \<Rightarrow> int \<Rightarrow> format_arg \<Rightarrow> string attempt" where
  "format h st now date =
     original_format h now (if nullish date then ADate (fakeNowDate h st now) else date)"

definition formatToParts :: "host \<Rightarrow> session \<Rightarrow> int \<Rightarrow> format_arg \<Rightarrow> string list attempt" where
  "formatToParts h st now date =
     original_formatToParts h now (if nullish date then ADate (fakeNowDate h st now) else date)"

definition formatRange :: "host \<Rightarrow> session \<Rightarrow> int \<Rightarrow> format_arg \<Rightarrow> format_arg \<Rightarrow> string attempt" where
  "formatRange h st now startDate endDate = original_formatRange h now startDate endDate"

subsection \<open>The reference definition of the virtual instant\<close>

text \<open>
  The specification's context state and its formula, in the specification's words: the
  real instant when no fake instant is seeded, the fake instant when the clock is stopped
  (no tick anchor), and the fake instant plus the real time elapsed since the tick anchor
  when the clock runs.
\<close>

record ContextState =
  fakeInstant :: "int option"
  tickAnchor :: "int option"

definition clockStopped :: "ContextState \<Rightarrow> bool" where
  "clockStopped cs = (tickAnchor cs = None)"

definition VirtualInstant :: "ContextState \<Rightarrow> int \<Rightarrow> int" where
  "VirtualInstant cs real_now =
     (case fakeInstant cs of
        None \<Rightarrow> real_now
      | Some fi \<Rightarrow>
          (case tickAnchor cs of
             None \<Rightarrow> fi
           | Some ta \<Rightarrow> fi + (real_now - ta)))"

text \<open>
  The context state a session storage holds, when its strings are well formed: the fake
  date parses as a date and the tick anchor, when present, as a finite number (the
  number \<open>Number.parseInt\<close> returns for it). With no fake date stored the context is
  not seeded at all.
\<close>

definition ContextState_of :: "host \<Rightarrow> session \<Rightarrow> ContextState option" where
  "ContextState_of h st =
     (case getFromStorage st FAKE_DATE_STORAGE_KEY of
        None \<Rightarrow> Some \<lparr>fakeInstant = None, tickAnchor = None\<rparr>
      | Some fakeDate \<Rightarrow>
          (case Date_parse h fakeDate of
             Num fi \<Rightarrow>
               (case getFromStorage st TICK_START_STORAGE_KEY of
                  None \<Rightarrow> Some \<lparr>fakeInstant = Some fi, tickAnchor = None\<rparr>
                | Some ts \<Rightarrow>
                    (case parseInt ts of
                       Num ta \<Rightarrow> Some \<lparr>fakeInstant = Some fi, tickAnchor = Some ta\<rparr>
                     | _ \<Rightarrow> None))
           | _ \<Rightarrow> None))"

section \<open>The State Store (util/storage.ts)\<close>

record GlobalState =
  isGlobalEnabled :: bool
  fakeDate :: "string option"
  tickStartTimestamp :: "string option"
  isClockStopped :: bool

text \<open>
  \<open>Partial<GlobalState>\<close>: every key may be missing. For the two nullable keys
  \<open>Some None\<close> is the key present with the value null.
\<close>

record PartialGlobalState =
  p_isGlobalEnabled :: "bool option"
  p_fakeDate :: "string option option"
  p_tickStartTimestamp :: "string option option"
  p_isClockStopped :: "bool option"

definition no_keys :: PartialGlobalState where
  "no_keys = \<lparr>p_isGlobalEnabled = None, p_fakeDate = None,
               p_tickStartTimestamp = None, p_isClockStopped = None\<rparr>"

definition all_keys :: "GlobalState \<Rightarrow> PartialGlobalState" where
  "all_keys g = \<lparr>p_isGlobalEnabled = Some (isGlobalEnabled g), p_fakeDate = Some (fakeDate g),
                  p_tickStartTimestamp = Some (tickStartTimestamp g),
                  p_isClockStopped = Some (isClockStopped g)\<rparr>"

text \<open>The object spread \<open>{ ...base, ...over }\<close>: a key of \<open>over\<close> wins when present.\<close>

definition spread :: "GlobalState \<Rightarrow> PartialGlobalState \<Rightarrow> GlobalState" where
  "spread base over =
     \<lparr>isGlobalEnabled = (case p_isGlobalEnabled over of None \<Rightarrow> isGlobalEnabled base | Some v \<Rightarrow> v),
      fakeDate = (case p_fakeDate over of None \<Rightarrow> fakeDate base | Some v \<Rightarrow> v),
      tickStartTimestamp =
        (case p_tickStartTimestamp over of None \<Rightarrow> tickStartTimestamp base | Some v \<Rightarrow> v),
      isClockStopped = (case p_isClockStopped over of None \<Rightarrow> isClockStopped base | Some v \<Rightarrow> v)\<rparr>"

text \<open>
  \<open>chrome.storage.local\<close>, as far as the extension uses it: the record under the key
  \<open>timeTravelGlobalState\<close> (absent until the first write), and whether reading or
  writing raises.
\<close>

record storage =
  item :: "PartialGlobalState option"
  get_raises :: bool
  set_raises :: bool

definition storage_get :: "storage \<Rightarrow> PartialGlobalState option attempt" where
  "storage_get s = (if get_raises s then Throws ''storage read failed'' else Returns (item s))"

definition storage_set :: "storage \<Rightarrow> GlobalState \<Rightarrow> storage attempt" where
  "storage_set s newState =
     (if set_raises s then Throws ''storage write failed''
      else Returns (s\<lparr>item := Some (all_keys newState)\<rparr>))"

definition storage_remove :: "storage \<Rightarrow> storage attempt" where
  "storage_remove s =
     (if set_raises s then Throws ''storage write failed'' else Returns (s\<lparr>item := None\<rparr>))"

definition DEFAULT_STATE :: GlobalState where
  "DEFAULT_STATE = \<lparr>isGlobalEnabled = False, fakeDate = None,
                     tickStartTimestamp = None, isClockStopped = True\<rparr>"

definition getGlobalState :: "storage \<Rightarrow> GlobalState" where
  "getGlobalState s =
     (case storage_get s of
        Returns storedState \<Rightarrow>
          (case storedState of
             None \<Rightarrow> DEFAULT_STATE
           | Some p \<Rightarrow> spread DEFAULT_STATE p)
      | Throws e \<Rightarrow> DEFAULT_STATE)"

text \<open>The state a read that does not raise returns: the persisted state.\<close>

definition persisted :: "storage \<Rightarrow> GlobalState" where
  "persisted s = (case item s of None \<Rightarrow> DEFAULT_STATE | Some p \<Rightarrow> spread DEFAULT_STATE p)"

text \<open>
  A write returns the storage after it and the error it raised, if any; a write that
  raised has left the storage as it was.
\<close>

definition setGlobalState :: "PartialGlobalState \<Rightarrow> storage \<Rightarrow> storage \<times> string option" where
  "setGlobalState state s =
     (let currentState = getGlobalState s;
          newState = spread currentState state
      in case storage_set s newState of
           Returns s' \<Rightarrow> (s', None)
         | Throws e \<Rightarrow> (s, Some e))"

definition updateGlobalFakeDate :: "string option \<Rightarrow> storage \<Rightarrow> storage \<times> string option" where
  "updateGlobalFakeDate fd s = setGlobalState (no_keys\<lparr>p_fakeDate := Some fd\<rparr>) s"

text \<open>\<open>Number.prototype.toString\<close> on an integer: its decimal digits.\<close>

definition digitChar :: "nat \<Rightarrow> char" where
  "digitChar d = ''0123456789'' ! d"

fun natToString :: "nat \<Rightarrow> string" where
  "natToString n =
     (if n < 10 then [digitChar n]
      else natToString (n div 10) @ [digitChar (n mod 10)])"

declare natToString.simps [simp del]

definition toString :: "int \<Rightarrow> string" where
  "toString i = (if i < 0 then CHR ''-'' # natToString (nat (- i)) else natToString (nat i))"

text \<open>A string is truthy when it is neither null nor undefined nor empty.\<close>

definition truthy :: "string option \<Rightarrow> bool" where
  "truthy v = (case v of None \<Rightarrow> False | Some x \<Rightarrow> x \<noteq> [])"

text \<open>
  \<open>updateGlobalClockState(isClockStopped, tickStartTimestamp?)\<close> at the real instant
  \<open>now\<close>. A missing and a null second argument behave alike (both are \<open>None\<close> here):
  the value is replaced in every branch that a falsy argument reaches.
\<close>

definition updateGlobalClockState ::
  "int \<Rightarrow> bool \<Rightarrow> string option \<Rightarrow> storage \<Rightarrow> storage \<times> string option" where
  "updateGlobalClockState now stopped tick s =
     (let finalTickStartTimestamp =
            (if \<not> stopped \<and> \<not> truthy tick then Some (toString now)
             else if stopped then None
             else tick)
      in setGlobalState (no_keys\<lparr>p_isClockStopped := Some stopped,
                                  p_tickStartTimestamp := Some finalTickStartTimestamp\<rparr>) s)"

definition setGlobalEnabled :: "bool \<Rightarrow> storage \<Rightarrow> storage \<times> string option" where
  "setGlobalEnabled enabled s = setGlobalState (no_keys\<lparr>p_isGlobalEnabled := Some enabled\<rparr>) s"

definition clearGlobalState :: "storage \<Rightarrow> storage \<times> string option" where
  "clearGlobalState s =
     (case storage_remove s of Returns s' \<Rightarrow> (s', None) | Throws e \<Rightarrow> (s, Some e))"

text \<open>Awaiting one write after another: the first rejection ends the sequence.\<close>

definition and_then ::
  "(storage \<Rightarrow> storage \<times> string option) \<Rightarrow> (storage \<Rightarrow> storage \<times> string option)
     \<Rightarrow> storage \<Rightarrow> storage \<times> string option" where
  "and_then f g s = (case f s of (s', None) \<Rightarrow> g s' | (s', Some e) \<Rightarrow> (s', Some e))"

text \<open>The two invariants of the specification's GlobalConfig, on a stored state.\<close>

definition clock_invariant :: "GlobalState \<Rightarrow> bool" where
  "clock_invariant g = (isClockStopped g \<longleftrightarrow> tickStartTimestamp g = None)"

definition enabled_invariant :: "GlobalState \<Rightarrow> bool" where
  "enabled_invariant g = (fakeDate g = None \<longleftrightarrow> isGlobalEnabled g = False)"

section \<open>The popup's global switch (popup)\<close>

text \<open>
  \<open>setGlobalFakeTime(enabled, fakeDate?, isClockStopped?)\<close>. \<open>parseDate\<close> comes from a
  module outside the sources at hand and is a parameter: it returns the normalised date
  string, or null for a string that is not a date. Registering the content script does
  not touch the store and its failure is caught.
\<close>

definition globalDisable :: "int \<Rightarrow> storage \<Rightarrow> storage \<times> string option" where
  "globalDisable now s =
     and_then (setGlobalEnabled False)
       (and_then (updateGlobalFakeDate None)
          (updateGlobalClockState now True None)) s"

definition globalEnable ::
  "(string \<Rightarrow> string option) \<Rightarrow> int \<Rightarrow> string \<Rightarrow> bool option
     \<Rightarrow> storage \<Rightarrow> storage \<times> string option" where
  "globalEnable parseDate now d stopped s =
     (case parseDate d of
        None \<Rightarrow> (s, Some ''Invalid date format!'')
      | Some parsedDate \<Rightarrow>
          and_then (updateGlobalFakeDate (Some parsedDate))
            (and_then (updateGlobalClockState now (case stopped of None \<Rightarrow> True | Some b \<Rightarrow> b) None)
               (setGlobalEnabled True)) s)"

definition setGlobalFakeTime ::
  "(string \<Rightarrow> string option) \<Rightarrow> int \<Rightarrow> bool \<Rightarrow> string option \<Rightarrow> bool option
     \<Rightarrow> storage \<Rightarrow> storage \<times> string option" where
  "setGlobalFakeTime parseDate now enabled fd stopped s =
     (case fd of
        Some d \<Rightarrow>
          if enabled \<and> d \<noteq> [] then globalEnable parseDate now d stopped s
          else globalDisable now s
      | None \<Rightarrow> globalDisable now s)"

section \<open>The Propagation Coordinator (worker)\<close>

text \<open>
  A tab as the browser reports it: its id and its URL, either of which may be missing.
  The coordinator's state is the two sets of the source; the browser's is the list of
  open tabs, the session storage of each tab's page and the log of forced reloads. The
  list of allowed URL prefixes comes from a configuration module outside the sources at
  hand and is a parameter. Each handler runs to its end before the next one starts.
\<close>

record tab =
  tab_id :: "nat option"
  tab_url :: "string option"

record world =
  store :: storage
  activeTabs :: "nat set"
  reloadedTabs :: "nat set"
  tabs :: "tab list"
  sessions :: "nat \<Rightarrow> session"
  reloads :: "nat list"

definition startsWith :: "string \<Rightarrow> string \<Rightarrow> bool" where
  "startsWith url p = (take (length p) url = p)"

definition restrictedProtocols :: "string list" where
  "restrictedProtocols = [''chrome://'', ''chrome-extension://'', ''moz-extension://'',
                          ''about:'', ''data:'', ''file://'', ''view-source:'']"

definition isRestrictedUrl :: "string \<Rightarrow> bool" where
  "isRestrictedUrl url = list_ex (\<lambda>protocol. startsWith url protocol) restrictedProtocols"

definition isAllowedWebsite :: "string list \<Rightarrow> string \<Rightarrow> bool" where
  "isAllowedWebsite allowedUrls url = list_ex (\<lambda>pattern. startsWith url pattern) allowedUrls"

text \<open>\<open>chrome.tabs.get(tabId).catch(() => null)\<close>: the open tab with that id, or null.\<close>

definition tabs_get :: "tab list \<Rightarrow> nat \<Rightarrow> tab option" where
  "tabs_get ts tabId = find (\<lambda>t. tab_id t = Some tabId) ts"

text \<open>
  The function injected into the page. It writes the session storage inside a try
  block, so a blocked storage is left as it is.
\<close>

fun setItem :: "session \<Rightarrow> string \<Rightarrow> string \<Rightarrow> session attempt" where
  "setItem Blocked key v = Throws ''SecurityError''"
| "setItem (Items m) key v = Returns (Items (m(key \<mapsto> v)))"

fun removeItem :: "session \<Rightarrow> string \<Rightarrow> session attempt" where
  "removeItem Blocked key = Throws ''SecurityError''"
| "removeItem (Items m) key = Returns (Items (m(key := None)))"

definition seed_steps :: "GlobalState \<Rightarrow> session \<Rightarrow> session attempt" where
  "seed_steps state st =
     (case fakeDate state of
        Some fd \<Rightarrow>
          if isGlobalEnabled state \<and> fd \<noteq> [] then
            (case setItem st ''timeTravelDate'' fd of
               Throws e \<Rightarrow> Throws e
             | Returns st1 \<Rightarrow>
                 (case tickStartTimestamp state of
                    Some ts \<Rightarrow>
                      if ts \<noteq> [] then setItem st1 ''timeTravelTickStartTimestamp'' ts
                      else removeItem st1 ''timeTravelTickStartTimestamp''
                  | None \<Rightarrow> removeItem st1 ''timeTravelTickStartTimestamp''))
          else
            (case removeItem st ''timeTravelDate'' of
               Throws e \<Rightarrow> Throws e
             | Returns st1 \<Rightarrow> removeItem st1 ''timeTravelTickStartTimestamp'')
      | None \<Rightarrow>
          (case removeItem st ''timeTravelDate'' of
             Throws e \<Rightarrow> Throws e
           | Returns st1 \<Rightarrow> removeItem st1 ''timeTravelTickStartTimestamp''))"

definition seed :: "GlobalState \<Rightarrow> session \<Rightarrow> session" where
  "seed state st = (case seed_steps state st of Returns st' \<Rightarrow> st' | Throws e \<Rightarrow> st)"

definition applyGlobalStateToTab :: "string list \<Rightarrow> nat \<Rightarrow> world \<Rightarrow> world" where
  "applyGlobalStateToTab allowedUrls tabId w =
     (let globalState = getGlobalState (store w) in
      case tabs_get (tabs w) tabId of
        None \<Rightarrow> w
      | Some t \<Rightarrow>
          (case tab_url t of
             None \<Rightarrow> w
           | Some url \<Rightarrow>
               if url = [] \<or> isRestrictedUrl url then w
               else if \<not> isAllowedWebsite allowedUrls url then w
               else if isGlobalEnabled globalState \<and> truthy (fakeDate globalState)
                       \<and> tabId \<notin> reloadedTabs w
               then w\<lparr>reloadedTabs := insert tabId (reloadedTabs w),
                      reloads := reloads w @ [tabId]\<rparr>
               else w\<lparr>sessions := (sessions w)(tabId := seed globalState (sessions w tabId))\<rparr>))"

text \<open>The filter of the loop over all tabs: \<open>tab.id && tab.url && ...\<close>.\<close>

definition eligible :: "string list \<Rightarrow> tab \<Rightarrow> bool" where
  "eligible allowedUrls t =
     (case tab_id t of
        None \<Rightarrow> False
      | Some i \<Rightarrow>
          i \<noteq> 0 \<and>
          (case tab_url t of
             None \<Rightarrow> False
           | Some url \<Rightarrow> url \<noteq> [] \<and> \<not> isRestrictedUrl url \<and> isAllowedWebsite allowedUrls url))"

fun applyToTabs :: "string list \<Rightarrow> tab list \<Rightarrow> world \<Rightarrow> world" where
  "applyToTabs allowedUrls [] w = w"
| "applyToTabs allowedUrls (t # ts) w =
     applyToTabs allowedUrls ts
       (if eligible allowedUrls t
        then (case tab_id t of Some i \<Rightarrow> applyGlobalStateToTab allowedUrls i w | None \<Rightarrow> w)
        else w)"

definition applyGlobalStateToAllTabs :: "string list \<Rightarrow> world \<Rightarrow> world" where
  "applyGlobalStateToAllTabs allowedUrls w =
     (let globalState = getGlobalState (store w) in
      if \<not> isGlobalEnabled globalState then w
      else applyToTabs allowedUrls (tabs w) w)"

text \<open>The listeners.\<close>

definition storage_onChanged :: "string list \<Rightarrow> world \<Rightarrow> world" where
  "storage_onChanged allowedUrls w =
     applyGlobalStateToAllTabs allowedUrls (w\<lparr>reloadedTabs := {}\<rparr>)"

definition tabs_onCreated :: "string list \<Rightarrow> tab \<Rightarrow> world \<Rightarrow> world" where
  "tabs_onCreated allowedUrls t w =
     (case tab_id t of
        None \<Rightarrow> w
      | Some i \<Rightarrow> if i \<noteq> 0 then applyGlobalStateToTab allowedUrls i w else w)"

definition tabs_onUpdated :: "string list \<Rightarrow> nat \<Rightarrow> bool \<Rightarrow> tab \<Rightarrow> world \<Rightarrow> world" where
  "tabs_onUpdated allowedUrls tabId loading t w =
     (if loading then
        (case tab_url t of
           None \<Rightarrow> w
         | Some url \<Rightarrow>
             if url \<noteq> [] \<and> \<not> isRestrictedUrl url \<and> isAllowedWebsite allowedUrls url
             then applyGlobalStateToTab allowedUrls tabId w
             else w)
      else w)"

definition tabs_onRemoved :: "nat \<Rightarrow> world \<Rightarrow> world" where
  "tabs_onRemoved tabId w =
     w\<lparr>activeTabs := activeTabs w - {tabId}, reloadedTabs := reloadedTabs w - {tabId}\<rparr>"

text \<open>
  The message \<open>updateGlobalStateFromAPI\<close> and the handler's answer. The fake date of
  the message is a string or null, its clock flag may be missing.
\<close>

record api_response =
  success :: bool
  error :: "string option"
  message :: "string option"

definition updateGlobalStateFromAPI ::
  "int \<Rightarrow> string option \<Rightarrow> bool option \<Rightarrow> storage \<Rightarrow> storage \<times> api_response" where
  "updateGlobalStateFromAPI now msg_fakeDate msg_isClockStopped s =
     (let tickStartTimestamp = (if msg_isClockStopped = Some True then None else Some (toString now))
      in case setGlobalState
                \<lparr>p_isGlobalEnabled = Some True,
                 p_fakeDate = Some msg_fakeDate,
                 p_tickStartTimestamp = Some tickStartTimestamp,
                 p_isClockStopped = Some (case msg_isClockStopped of None \<Rightarrow> True | Some b \<Rightarrow> b)\<rparr> s of
           (s', None) \<Rightarrow>
             (s', \<lparr>success = True, error = None,
                   message = Some ''Global state updated successfully''\<rparr>)
         | (s', Some e) \<Rightarrow> (s', \<lparr>success = False, error = Some e, message = None\<rparr>))"

text \<open>
  The events the browser delivers to the coordinator, and the run of a list of them. A
  write to the store and the change notification that follows it are two events.
\<close>

datatype event =
    StorageChanged
  | TabCreated tab
  | TabUpdated nat bool tab
  | TabRemoved nat
  | ReapplyGlobalState
  | Active nat
  | UpdateGlobalStateFromAPI int "string option" "bool option"

fun replace_tab :: "nat \<Rightarrow> tab \<Rightarrow> tab list \<Rightarrow> tab list" where
  "replace_tab i t [] = []"
| "replace_tab i t (x # xs) = (if tab_id x = Some i then t else x) # replace_tab i t xs"

fun handle :: "string list \<Rightarrow> event \<Rightarrow> world \<Rightarrow> world" where
  "handle allowedUrls StorageChanged w = storage_onChanged allowedUrls w"
| "handle allowedUrls (TabCreated t) w = tabs_onCreated allowedUrls t (w\<lparr>tabs := tabs w @ [t]\<rparr>)"
| "handle allowedUrls (TabUpdated i loading t) w =
     tabs_onUpdated allowedUrls i loading t (w\<lparr>tabs := replace_tab i t (tabs w)\<rparr>)"
| "handle allowedUrls (TabRemoved i) w =
     tabs_onRemoved i (w\<lparr>tabs := filter (\<lambda>t. tab_id t \<noteq> Some i) (tabs w)\<rparr>)"
| "handle allowedUrls ReapplyGlobalState w = applyGlobalStateToAllTabs allowedUrls w"
| "handle allowedUrls (Active i) w =
     (if i \<noteq> 0 then w\<lparr>activeTabs := insert i (activeTabs w)\<rparr> else w)"
| "handle allowedUrls (UpdateGlobalStateFromAPI now fd stopped) w =
     w\<lparr>store := fst (updateGlobalStateFromAPI now fd stopped (store w))\<rparr>"

fun run :: "string list \<Rightarrow> event list \<Rightarrow> world \<Rightarrow> world" where
  "run allowedUrls [] w = w"
| "run allowedUrls (e # es) w = run allowedUrls es (handle allowedUrls e w)"

section \<open>The external API bridge (api_bridge.ts)\<close>

text \<open>
  The \<open>fakeDate\<close> field of a request posted by a page: missing, a value that is not a
  string, or a string.
\<close>

datatype field = Missing | NotAString | Str string

definition handleUpdateGlobalState ::
  "host \<Rightarrow> int \<Rightarrow> field \<Rightarrow> bool option \<Rightarrow> storage \<Rightarrow> storage \<times> api_response" where
  "handleUpdateGlobalState h now data_fakeDate data_isClockStopped s =
     (case data_fakeDate of
        Str fd \<Rightarrow>
          if fd = [] then
            (s, \<lparr>success = False, error = Some ''fakeDate is required and must be a string'',
                  message = None\<rparr>)
          else
            (let testDate = OriginalDate h now [VStr fd] in
             if getTime testDate = NaN then
               (s, \<lparr>success = False, error = Some ''Invalid date format'', message = None\<rparr>)
             else
               updateGlobalStateFromAPI now (Some fd)
                 (Some (case data_isClockStopped of None \<Rightarrow> True | Some b \<Rightarrow> b)) s)
      | _ \<Rightarrow>
          (s, \<lparr>success = False, error = Some ''fakeDate is required and must be a string'',
                message = None\<rparr>))"

definition handleDisableTimeTravel :: "int \<Rightarrow> storage \<Rightarrow> storage \<times> api_response" where
  "handleDisableTimeTravel now s = updateGlobalStateFromAPI now None (Some True) s"

definition handleGetGlobalState :: "storage \<Rightarrow> GlobalState" where
  "handleGetGlobalState s = getGlobalState s"

section \<open>Predicates and concrete states used in the theorems\<close>

text \<open>
  A tick anchor is non-numeric when, after leading white space and one sign, it is empty
  or starts with a character that is not a decimal digit.
\<close>

definition non_numeric :: "string \<Rightarrow> bool" where
  "non_numeric s =
     (case snd (stripSign (dropWhile isWhiteSpace s)) of
        [] \<Rightarrow> True
      | c # r \<Rightarrow> \<not> isRadixDigit 10 c)"

text \<open>
  A real instant is a time value: an epoch count within the range of a Date. The elapsed
  time \<open>real_now - tickAnchor\<close> is exact when it is at most \<open>2^53\<close> in magnitude:
  then the subtraction of the two doubles does not round.
\<close>

definition time_value :: "int \<Rightarrow> bool" where
  "time_value t = (\<bar>t\<bar> \<le> maxTime)"

definition elapsed_exact :: "ContextState \<Rightarrow> int \<Rightarrow> bool" where
  "elapsed_exact cs real_now =
     (case tickAnchor cs of
        None \<Rightarrow> True
      | Some ta \<Rightarrow> \<bar>real_now - ta\<bar> \<le> 9007199254740992)"

text \<open>
  A host for concrete runs. Its parser knows four ISO strings: the instant of the
  specification's end-to-end scenario, the epoch, and the last and the first instant a
  Date can hold.
\<close>

definition demo_parse :: "string \<Rightarrow> jsnum" where
  "demo_parse s =
     (if s = ''2023-12-25T10:30:00.000Z'' then Num 1703500200000
      else if s = ''1970-01-01T00:00:00.000Z'' then Num 0
      else if s = ''+275760-09-13T00:00:00.000Z'' then Num 8640000000000000
      else if s = ''-271821-04-20T00:00:00.000Z'' then Num (- 8640000000000000)
      else NaN)"

definition demo_host :: host where
  "demo_host = \<lparr>Date_parse = demo_parse,
                 Date_components = (\<lambda>cs. NaN),
                 DateTimeFormat_format = (\<lambda>t. case t of Num i \<Rightarrow> Returns ''formatted''
                                                | _ \<Rightarrow> Throws ''RangeError''),
                 DateTimeFormat_formatToParts = (\<lambda>t. Returns []),
                 DateTimeFormat_formatRange = (\<lambda>a b. Returns ''range''),
                 Date_toString = (\<lambda>t. ''date'')\<rparr>"

definition running_session :: session where
  "running_session = Items [''timeTravelDate'' \<mapsto> ''2023-12-25T10:30:00.000Z'',
                            ''timeTravelTickStartTimestamp'' \<mapsto> ''1700000000000'']"

definition stopped_session :: session where
  "stopped_session = Items [''timeTravelDate'' \<mapsto> ''2023-12-25T10:30:00.000Z'']"

definition last_day_session :: session where
  "last_day_session = Items [''timeTravelDate'' \<mapsto> ''+275760-09-13T00:00:00.000Z'',
                             ''timeTravelTickStartTimestamp'' \<mapsto> ''1700000000000'']"

definition first_day_session :: session where
  "first_day_session = Items [''timeTravelDate'' \<mapsto> ''-271821-04-20T00:00:00.000Z'',
                              ''timeTravelTickStartTimestamp'' \<mapsto> ''-9007199254740991'']"

definition nbsp_session :: session where
  "nbsp_session = Items [''timeTravelDate'' \<mapsto> ''2023-12-25T10:30:00.000Z'',
                         ''timeTravelTickStartTimestamp'' \<mapsto> [CHR 0xA0, CHR ''1'', CHR ''2'']]"

definition garbled_session :: session where
  "garbled_session = Items [''timeTravelDate'' \<mapsto> ''2023-12-25T10:30:00.000Z'',
                            ''timeTravelTickStartTimestamp'' \<mapsto> ''abc'']"

definition empty_storage :: storage where
  "empty_storage = \<lparr>item = None, get_raises = False, set_raises = False\<rparr>"

definition unreadable_storage :: storage where
  "unreadable_storage =
     \<lparr>item = Some (all_keys \<lparr>isGlobalEnabled = True, fakeDate = Some ''2023-12-25T10:30:00.000Z'',
                              tickStartTimestamp = None, isClockStopped = True\<rparr>),
      get_raises = True, set_raises = False\<rparr>"

text \<open>
  The events that empty the reload guard of tab \<open>t\<close>, and the number of forced reloads
  of \<open>t\<close> so far plus the one still open to it while it is not marked.
\<close>

definition guard_cleared :: "nat \<Rightarrow> event \<Rightarrow> bool" where
  "guard_cleared t e = (e = StorageChanged \<or> e = TabRemoved t)"

definition reload_potential :: "nat \<Rightarrow> world \<Rightarrow> nat" where
  "reload_potential t w = count_list (reloads w) t + (if t \<in> reloadedTabs w then 0 else 1)"

text \<open>
  One open tab on an allowed site, and the worlds it passes through in the runs below:
  before any configuration, after the forced reload, after the reload's navigation has
  seeded the page, after a second configuration change, and after the popup has disabled
  the global mode.
\<close>

definition demo_allowed :: "string list" where
  "demo_allowed = [''https://example.com'']"

definition demo_tab :: tab where
  "demo_tab = \<lparr>tab_id = Some 7, tab_url = Some ''https://example.com/app''\<rparr>"

definition demo_world :: world where
  "demo_world = \<lparr>store = empty_storage, activeTabs = {}, reloadedTabs = {},
                  tabs = [demo_tab], sessions = (\<lambda>i. Items Map.empty), reloads = []\<rparr>"

definition two_updates :: "event list" where
  "two_updates =
     [UpdateGlobalStateFromAPI 1700000000000 (Some ''2023-12-25T10:30:00.000Z'') (Some True),
      StorageChanged,
      TabUpdated 7 True demo_tab,
      UpdateGlobalStateFromAPI 1700000000500 (Some ''1970-01-01T00:00:00.000Z'') (Some True),
      StorageChanged]"

definition enabled_state :: GlobalState where
  "enabled_state = \<lparr>isGlobalEnabled = True, fakeDate = Some ''2023-12-25T10:30:00.000Z'',
                     tickStartTimestamp = None, isClockStopped = True\<rparr>"

definition enabled_storage :: storage where
  "enabled_storage = \<lparr>item = Some (all_keys enabled_state), get_raises = False, set_raises = False\<rparr>"

definition seeded_world :: world where
  "seeded_world = \<lparr>store = enabled_storage, activeTabs = {}, reloadedTabs = {7},
                    tabs = [demo_tab], sessions = (\<lambda>i. Items Map.empty)(7 := stopped_session),
                    reloads = [7]\<rparr>"

definition reloading_world :: world where
  "reloading_world = \<lparr>store = enabled_storage, activeTabs = {}, reloadedTabs = {7},
                       tabs = [demo_tab], sessions = (\<lambda>i. Items Map.empty), reloads = [7]\<rparr>"

definition second_state :: GlobalState where
  "second_state = \<lparr>isGlobalEnabled = True, fakeDate = Some ''1970-01-01T00:00:00.000Z'',
                    tickStartTimestamp = None, isClockStopped = True\<rparr>"

definition second_storage :: storage where
  "second_storage = \<lparr>item = Some (all_keys second_state), get_raises = False, set_raises = False\<rparr>"

definition reloaded_twice_world :: world where
  "reloaded_twice_world = \<lparr>store = second_storage, activeTabs = {}, reloadedTabs = {7},
                            tabs = [demo_tab],
                            sessions = (\<lambda>i. Items Map.empty)(7 := stopped_session),
                            reloads = [7, 7]\<rparr>"

definition disabled_storage :: storage where
  "disabled_storage = \<lparr>item = Some (all_keys DEFAULT_STATE), get_raises = False, set_raises = False\<rparr>"

definition stale_world :: world where
  "stale_world = \<lparr>store = disabled_storage, activeTabs = {}, reloadedTabs = {},
                   tabs = [demo_tab], sessions = (\<lambda>i. Items Map.empty)(7 := stopped_session),
                   reloads = [7]\<rparr>"

text \<open>A \<open>parseDate\<close> for concrete runs: it accepts the scenario's instant only.\<close>

definition demo_parseDate :: "string \<Rightarrow> string option" where
  "demo_parseDate d =
     (if d = ''2023-12-25T10:30:00.000Z'' then Some ''2023-12-25T10:30:00.000Z'' else None)"

section \<open>The Clock Engine: what a date read resolves to\<close>

lemma exponentShift_small: "a < 9007199254740992 \<Longrightarrow> exponentShift a = 0"
  by (simp add: exponentShift.simps)

lemma roundMagnitude_small: "a < 9007199254740992 \<Longrightarrow> roundMagnitude a = a"
  by (simp add: roundMagnitude_def exponentShift_small)

lemma roundMagnitude_two53: "roundMagnitude 9007199254740992 = 9007199254740992"
  by (simp add: roundMagnitude_def exponentShift.simps)

text \<open>An integer of magnitude at most \<open>2^53\<close> is a double.\<close>

lemma toDouble_exact:
  assumes "\<bar>n\<bar> \<le> 9007199254740992"
  shows "toDouble n = Num n"
proof -
  define m where "m = roundMagnitude (nat \<bar>n\<bar>)"
  have m: "m = nat \<bar>n\<bar>"
  proof (cases "nat \<bar>n\<bar> < 9007199254740992")
    case True
    then show ?thesis unfolding m_def by (rule roundMagnitude_small)
  next
    case False
    with assms have "nat \<bar>n\<bar> = 9007199254740992" by linarith
    then show ?thesis unfolding m_def by (simp add: roundMagnitude_two53)
  qed
  have "(2::nat) ^ 53 \<le> 2 ^ 1024"
    by (rule power_increasing) simp_all
  then have "(9007199254740992::nat) \<le> overflowBound"
    unfolding overflowBound_def by simp
  moreover have "m \<le> 9007199254740992"
    using assms m by linarith
  ultimately have small: "\<not> overflowBound \<le> m"
    by (simp add: overflowBound_def)
  have "toDouble n = (if overflowBound \<le> m then (if n < 0 then NegInf else PosInf)
                      else Num (if n < 0 then - int m else int m))"
    unfolding toDouble_def m_def Let_def ..
  also have "\<dots> = Num (if n < 0 then - int m else int m)"
    using small by simp
  also have "\<dots> = Num n"
    using m by simp
  finally show ?thesis .
qed

lemma exponentShift_range:
  "a div 2 ^ exponentShift a < 9007199254740992
   \<and> (9007199254740992 \<le> a \<longrightarrow> 4503599627370496 \<le> a div 2 ^ exponentShift a \<and> 0 < exponentShift a)"
proof (induction a rule: exponentShift.induct)
  case (1 a)
  show ?case
  proof (cases "a < 9007199254740992")
    case True
    then show ?thesis by (simp add: exponentShift_small)
  next
    case False
    then have k: "exponentShift a = Suc (exponentShift (a div 2))"
      by (subst exponentShift.simps) simp
    have d: "a div 2 ^ exponentShift a = (a div 2) div 2 ^ exponentShift (a div 2)"
      by (simp add: k div_mult2_eq)
    from False 1 have IH: "(a div 2) div 2 ^ exponentShift (a div 2) < 9007199254740992
      \<and> (9007199254740992 \<le> a div 2 \<longrightarrow> 4503599627370496 \<le> (a div 2) div 2 ^ exponentShift (a div 2))"
      by simp
    have low: "4503599627370496 \<le> (a div 2) div 2 ^ exponentShift (a div 2)"
    proof (cases "9007199254740992 \<le> a div 2")
      case True
      with IH show ?thesis by simp
    next
      case F2: False
      then have "exponentShift (a div 2) = 0" by (simp add: exponentShift_small)
      moreover from False have "4503599627370496 \<le> a div 2" by simp
      ultimately show ?thesis by simp
    qed
    show ?thesis
      using IH low by (simp add: d) (simp add: k)
  qed
qed

lemma roundMagnitude_large:
  assumes "9007199254740992 \<le> a"
  shows "9007199254740992 \<le> roundMagnitude a"
proof -
  let ?k = "exponentShift a"
  let ?q = "a div 2 ^ ?k"
  from exponentShift_range [of a] assms
  have q: "4503599627370496 \<le> ?q" and k: "0 < ?k" by simp_all
  from k have "(2::nat) \<le> 2 ^ ?k"
    by (metis One_nat_def Suc_leI power_increasing power_one_right one_le_numeral)
  with q have "4503599627370496 * 2 \<le> ?q * 2 ^ ?k"
    by (rule mult_le_mono)
  moreover have "?q * 2 ^ ?k \<le> roundMagnitude a"
    by (simp add: roundMagnitude_def Let_def)
  ultimately show ?thesis by simp
qed

text \<open>
  Rounding does not change what \<open>TimeClip\<close> returns: up to \<open>2^53\<close> nothing is
  rounded, and a larger magnitude stays larger than the range of a Date.
\<close>

lemma TimeClip_toDouble: "TimeClip (toDouble x) = TimeClip (Num x)"
proof (cases "\<bar>x\<bar> \<le> 9007199254740992")
  case True
  then show ?thesis by (simp add: toDouble_exact)
next
  case False
  define m where "m = roundMagnitude (nat \<bar>x\<bar>)"
  from False have "9007199254740992 \<le> nat \<bar>x\<bar>" by simp
  then have big: "9007199254740992 \<le> m"
    unfolding m_def by (rule roundMagnitude_large)
  have "toDouble x = (if overflowBound \<le> m then (if x < 0 then NegInf else PosInf)
                      else Num (if x < 0 then - int m else int m))"
    unfolding toDouble_def m_def Let_def ..
  then have "TimeClip (toDouble x) = NaN"
    using big by (auto simp: TimeClip_def maxTime_def)
  moreover from False have "TimeClip (Num x) = NaN"
    by (simp add: TimeClip_def maxTime_def)
  ultimately show ?thesis by simp
qed

lemma toDouble_examples:
  "toDouble 9008899254740991 = Num 9008899254740992"
  "toDouble (- 9007199254740993) = Num (- 9007199254740992)"
  "toDouble 9007199254740995 = Num 9007199254740996"
  by (simp_all add: toDouble_def roundMagnitude_def exponentShift.simps overflowBound_def)

lemma num_add_NaN [simp]: "num_add x NaN = NaN"
  by (cases x) simp_all

lemma num_sub_NaN [simp]: "num_sub x NaN = NaN"
  by (cases x) simp_all

lemmas parseInt_eval = parseInt_def stripSign_def stripPrefix_def isWhiteSpace_def
  whiteSpaceCodeUnits_def isRadixDigit_def digitValue_def digitsValue_def toDouble_exact

lemmas session_eval = getFromStorage_def FAKE_DATE_STORAGE_KEY_def TICK_START_STORAGE_KEY_def

lemma stripPrefix_no_digit:
  assumes "\<not> isRadixDigit 10 c"
  shows "stripPrefix (c # r) = (10, c # r)"
proof (cases r)
  case Nil
  then show ?thesis by (simp add: stripPrefix_def)
next
  case (Cons x r')
  have "c \<noteq> CHR ''0''"
    using assms by (auto simp: isRadixDigit_def digitValue_def)
  with Cons show ?thesis by (simp add: stripPrefix_def)
qed

lemma parseInt_non_numeric:
  assumes "non_numeric s"
  shows "parseInt s = NaN"
proof -
  obtain sign S1 where S1: "stripSign (dropWhile isWhiteSpace s) = (sign, S1)"
    by (cases "stripSign (dropWhile isWhiteSpace s)") simp
  show ?thesis
  proof (cases S1)
    case Nil
    then show ?thesis
      using S1 by (simp add: parseInt_def stripPrefix_def)
  next
    case (Cons c r)
    with assms S1 have nd: "\<not> isRadixDigit 10 c"
      by (simp add: non_numeric_def)
    show ?thesis
      using S1 Cons nd stripPrefix_no_digit [OF nd, of r]
      by (simp add: parseInt_def)
  qed
qed

lemma parseInt_examples:
  "parseInt ''1700000000000'' = Num 1700000000000"
  "parseInt ''  -12px'' = Num (- 12)"
  "parseInt ''0x1F'' = Num 31"
  "parseInt '''' = NaN"
  "parseInt [CHR 0xA0, CHR ''1'', CHR ''2''] = Num 12"
  by (simp_all add: parseInt_eval)

lemma parseInt_rounds: "parseInt ''9007199254740993'' = Num 9007199254740992"
  by (simp add: parseInt_def stripSign_def stripPrefix_def isWhiteSpace_def
      whiteSpaceCodeUnits_def isRadixDigit_def digitValue_def digitsValue_def
      toDouble_def roundMagnitude_def exponentShift.simps overflowBound_def)

lemma getTickStartTimestamp_None_iff:
  "getTickStartTimestamp st = None \<longleftrightarrow> getFromStorage st TICK_START_STORAGE_KEY = None"
  by (simp add: getTickStartTimestamp_def Number_parseInt_def split: option.splits)

lemma running_context:
  "ContextState_of demo_host running_session =
     Some \<lparr>fakeInstant = Some 1703500200000, tickAnchor = Some 1700000000000\<rparr>"
  by (simp add: ContextState_of_def running_session_def session_eval demo_host_def
      demo_parse_def parseInt_eval)

text \<open>
  Claim C1, as amended. For every context whose stored strings are well formed (the fake
  date parses to an instant, the tick anchor, when present, to a finite number) and every
  real instant \<open>real_now\<close>, the time value of \<open>fakeNowDate()\<close> is the specification's
  \<open>VirtualInstant\<close>: \<open>real_now\<close> when no fake date is stored, the fake instant when
  no tick anchor is stored, and, when one is stored and the elapsed time
  \<open>real_now - tickAnchor\<close> is at most \<open>2^53\<close> ms in magnitude, the fake instant plus
  the elapsed time as long as that sum is within the range of a Date (at most 8.64e15 ms
  from the epoch); with the sum beyond the range the result is an Invalid Date.
\<close>

theorem fakeNowDate_VirtualInstant:
  assumes ctx: "ContextState_of h st = Some cs"
    and now: "time_value now"
    and exact: "elapsed_exact cs now"
  shows "getTime (fakeNowDate h st now) =
           (if fakeInstant cs = None \<or> clockStopped cs then Num (VirtualInstant cs now)
            else TimeClip (Num (VirtualInstant cs now)))"
proof (cases "getFromStorage st FAKE_DATE_STORAGE_KEY")
  case None
  with ctx have "cs = \<lparr>fakeInstant = None, tickAnchor = None\<rparr>"
    by (simp add: ContextState_of_def)
  with None show ?thesis
    by (simp add: fakeNowDate_def VirtualInstant_def)
next
  case (Some fd)
  with ctx obtain fi where fi: "Date_parse h fd = Num fi"
    by (cases "Date_parse h fd") (simp_all add: ContextState_of_def)
  show ?thesis
  proof (cases "getFromStorage st TICK_START_STORAGE_KEY")
    case None
    with ctx Some fi have "cs = \<lparr>fakeInstant = Some fi, tickAnchor = None\<rparr>"
      by (simp add: ContextState_of_def)
    with Some None fi show ?thesis
      by (simp add: fakeNowDate_def getTickStartTimestamp_def VirtualInstant_def clockStopped_def)
  next
    case tick: (Some ts)
    with ctx Some fi obtain ta where ta: "parseInt ts = Num ta"
      by (cases "parseInt ts") (simp_all add: ContextState_of_def)
    with ctx Some fi tick have cs: "cs = \<lparr>fakeInstant = Some fi, tickAnchor = Some ta\<rparr>"
      by (simp add: ContextState_of_def)
    from exact cs have "\<bar>now - ta\<bar> \<le> 9007199254740992"
      by (simp add: elapsed_exact_def)
    then have elapsed: "num_sub (OriginalDate_now now) (Num ta) = Num (now - ta)"
      by (simp add: OriginalDate_now_def toDouble_exact)
    have "getTime (fakeNowDate h st now) = TimeClip (num_add (Num fi) (Num (now - ta)))"
      using Some tick fi ta elapsed
      by (simp add: fakeNowDate_def getTickStartTimestamp_def Number_parseInt_def)
    also have "\<dots> = TimeClip (Num (fi + (now - ta)))"
      by (simp add: TimeClip_toDouble)
    finally show ?thesis
      by (simp add: cs VirtualInstant_def clockStopped_def)
  qed
qed

text \<open>
  The running clock of the specification's scenario: seeded with 2023-12-25T10:30:00Z
  and read two seconds after the tick anchor, it shows two seconds past the fake instant.
\<close>

theorem fakeNowDate_VirtualInstant_witness:
  "ContextState_of demo_host running_session =
     Some \<lparr>fakeInstant = Some 1703500200000, tickAnchor = Some 1700000000000\<rparr>
   \<and> time_value 1700000002000
   \<and> elapsed_exact \<lparr>fakeInstant = Some 1703500200000, tickAnchor = Some 1700000000000\<rparr>
         1700000002000
   \<and> getTime (fakeNowDate demo_host running_session 1700000002000) = Num 1703500202000"
  using fakeNowDate_VirtualInstant [OF running_context, of 1700000002000]
  by (simp add: running_context VirtualInstant_def clockStopped_def TimeClip_def maxTime_def
      time_value_def elapsed_exact_def)

text \<open>
  Claim C1 as it is written fails at the end of the Date range: with the fake instant
  on the last representable millisecond and the clock running, one real millisecond
  after the tick anchor the specification's formula gives 8640000000000001, and
  \<open>fakeNowDate()\<close> returns an Invalid Date.
\<close>

theorem fakeNowDate_VirtualInstant_counterexample:
  "ContextState_of demo_host last_day_session =
     Some \<lparr>fakeInstant = Some 8640000000000000, tickAnchor = Some 1700000000000\<rparr>
   \<and> VirtualInstant \<lparr>fakeInstant = Some 8640000000000000, tickAnchor = Some 1700000000000\<rparr>
         1700000000001 = 8640000000000001
   \<and> getTime (fakeNowDate demo_host last_day_session 1700000000001) = NaN"
  by (simp add: ContextState_of_def last_day_session_def session_eval demo_host_def
      demo_parse_def parseInt_eval VirtualInstant_def fakeNowDate_def getTickStartTimestamp_def
      Number_parseInt_def OriginalDate_now_def TimeClip_def maxTime_def)

text \<open>
  Why the elapsed time must be exact: with the fake instant on the first representable
  millisecond and the tick anchor \<open>-(2^53 - 1)\<close>, the elapsed time at a present-day
  instant is an odd number above \<open>2^53\<close>. The subtraction rounds it up by one, and
  \<open>fakeNowDate()\<close> is one millisecond past the formula, inside the range of a Date.
\<close>

lemma fakeNowDate_elapsed_rounds:
  "ContextState_of demo_host first_day_session =
     Some \<lparr>fakeInstant = Some (- 8640000000000000), tickAnchor = Some (- 9007199254740991)\<rparr>
   \<and> VirtualInstant
         \<lparr>fakeInstant = Some (- 8640000000000000), tickAnchor = Some (- 9007199254740991)\<rparr>
         1700000000000 = 368899254740991
   \<and> getTime (fakeNowDate demo_host first_day_session 1700000000000) = Num 368899254740992"
  by (simp add: ContextState_of_def first_day_session_def session_eval demo_host_def
      demo_parse_def parseInt_def stripSign_def stripPrefix_def isWhiteSpace_def
      whiteSpaceCodeUnits_def isRadixDigit_def digitValue_def digitsValue_def
      toDouble_def roundMagnitude_def exponentShift.simps overflowBound_def
      VirtualInstant_def fakeNowDate_def getTickStartTimestamp_def
      Number_parseInt_def OriginalDate_now_def TimeClip_def maxTime_def)

text \<open>
  A tick anchor that starts with a no-break space is white space and digits: it parses
  to a number and the clock runs.
\<close>

lemma nbsp_tick_anchor_runs:
  "\<not> non_numeric [CHR 0xA0, CHR ''1'', CHR ''2'']
   \<and> getTickStartTimestamp nbsp_session = Some (Num 12)
   \<and> getTime (fakeNowDate demo_host nbsp_session 1700000000000) = Num 3403500199988"
  by (simp add: non_numeric_def nbsp_session_def session_eval demo_host_def demo_parse_def
      parseInt_eval fakeNowDate_def getTickStartTimestamp_def Number_parseInt_def
      OriginalDate_now_def TimeClip_def maxTime_def)

text \<open>
  Claim C9. When the read of the fake-date key from the session storage raises,
  \<open>fakeNowDate()\<close> raises nothing and returns what the original constructor returns
  with no argument: the real current instant.
\<close>

theorem fakeNowDate_storage_blocked:
  assumes "getItem st FAKE_DATE_STORAGE_KEY = Throws e"
  shows "fakeNowDate h st now = OriginalDate h now [] \<and> getTime (fakeNowDate h st now) = Num now"
  using assms unfolding fakeNowDate_def getFromStorage_def by simp

theorem fakeNowDate_storage_blocked_witness:
  "getItem Blocked FAKE_DATE_STORAGE_KEY = Throws ''SecurityError''
   \<and> getTime (fakeNowDate demo_host Blocked 1700000000000) = Num 1700000000000"
  using fakeNowDate_storage_blocked [of Blocked "''SecurityError''" demo_host 1700000000000]
  by simp

text \<open>
  Claim C10. With a fake date seeded and a stored tick anchor that is non-numeric, the
  call of \<open>Number.parseInt\<close> returns NaN (it does not raise, so the handler that would
  return null is not taken), \<open>getTickStartTimestamp()\<close> returns NaN and not null, and
  \<open>fakeNowDate()\<close> returns an Invalid Date: neither the frozen fake instant nor the real
  time.
\<close>

theorem non_numeric_tick_anchor:
  assumes "getFromStorage st FAKE_DATE_STORAGE_KEY = Some fd"
    and "getFromStorage st TICK_START_STORAGE_KEY = Some ts"
    and "non_numeric ts"
  shows "Number_parseInt ts = Returns NaN \<and> getTickStartTimestamp st = Some NaN
         \<and> getTime (fakeNowDate h st now) = NaN"
  using assms parseInt_non_numeric [of ts]
  unfolding fakeNowDate_def getTickStartTimestamp_def Number_parseInt_def OriginalDate_now_def
  by (simp add: Let_def TimeClip_def)

theorem non_numeric_tick_anchor_witness:
  "non_numeric ''abc''
   \<and> getTickStartTimestamp garbled_session = Some NaN
   \<and> getTime (fakeNowDate demo_host garbled_session 1700000000000) = NaN"
proof -
  have a: "getFromStorage garbled_session FAKE_DATE_STORAGE_KEY = Some ''2023-12-25T10:30:00.000Z''"
    by (simp add: garbled_session_def session_eval)
  have b: "getFromStorage garbled_session TICK_START_STORAGE_KEY = Some ''abc''"
    by (simp add: garbled_session_def session_eval)
  have c: "non_numeric ''abc''"
    by (simp add: non_numeric_def stripSign_def isWhiteSpace_def whiteSpaceCodeUnits_def
        isRadixDigit_def digitValue_def)
  show ?thesis
    using non_numeric_tick_anchor [OF a b c, of demo_host 1700000000000] c by simp
qed

text \<open>
  Claim C8. While the replacement constructor is installed, construction with a
  non-empty argument list gives what the original constructor gives for those arguments,
  whatever the context state; \<open>format\<close> and \<open>formatToParts\<close> with a date or a number
  render that argument; \<open>formatRange\<close> renders its two arguments. None of these results
  depends on the virtual instant.
\<close>

theorem explicit_arguments_not_faked:
  "(args \<noteq> [] \<longrightarrow> FakeDate h st now True args = VDate (OriginalDate h now args))
   \<and> format h st now (ADate d) = DateTimeFormat_format h (getTime d)
   \<and> format h st now (ANumber n) = DateTimeFormat_format h n
   \<and> formatToParts h st now (ADate d) = DateTimeFormat_formatToParts h (getTime d)
   \<and> formatToParts h st now (ANumber n) = DateTimeFormat_formatToParts h n
   \<and> formatRange h st now a b = original_formatRange h now a b"
  by (simp add: FakeDate_def format_def formatToParts_def formatRange_def original_format_def
      original_formatToParts_def)

text \<open>
  In the running context of the scenario, \<open>new Date(86400000)\<close> is the second day of
  1970, while \<open>new Date()\<close> is the virtual instant.
\<close>

theorem explicit_arguments_not_faked_witness:
  "[VNum (Num 86400000)] \<noteq> []
   \<and> FakeDate demo_host running_session 1700000002000 True [VNum (Num 86400000)]
       = VDate (DateObj (Num 86400000))
   \<and> FakeDate demo_host running_session 1700000002000 True []
       = VDate (DateObj (Num 1703500202000))"
  using explicit_arguments_not_faked [of "[VNum (Num 86400000)]" demo_host running_session
      1700000002000]
  by (simp add: TimeClip_def maxTime_def FakeDate_def fakeNowDate_def running_session_def
      session_eval demo_host_def demo_parse_def getTickStartTimestamp_def Number_parseInt_def
      parseInt_eval OriginalDate_now_def)

section \<open>The State Store\<close>

lemma spread_all_keys [simp]: "spread base (all_keys g) = g"
  by (simp add: spread_def all_keys_def)

lemma getGlobalState_persisted: "\<not> get_raises s \<Longrightarrow> getGlobalState s = persisted s"
  by (simp add: getGlobalState_def storage_get_def persisted_def split: option.splits)

lemma setGlobalState_cases:
  "setGlobalState p s =
     (if set_raises s then (s, Some ''storage write failed'')
      else (s\<lparr>item := Some (all_keys (spread (getGlobalState s) p))\<rparr>, None))"
  by (simp add: setGlobalState_def storage_set_def Let_def)

lemma persisted_item [simp]: "persisted (s\<lparr>item := Some (all_keys g)\<rparr>) = g"
  by (simp add: persisted_def)

lemma setGlobalState_completed:
  assumes "setGlobalState p s = (s', None)"
  shows "persisted s' = spread (getGlobalState s) p"
  using assms by (auto simp: setGlobalState_cases split: if_splits)

text \<open>
  Claim C7. \<open>getGlobalState()\<close> returns the default state (disabled, no fake date, no
  tick anchor, clock stopped) when no record is persisted, and returns the same default,
  raising nothing, when the read of the durable storage raises.
\<close>

theorem getGlobalState_default:
  "(get_raises s \<longrightarrow> getGlobalState s = DEFAULT_STATE)
   \<and> (item s = None \<longrightarrow> getGlobalState s = DEFAULT_STATE)
   \<and> DEFAULT_STATE = \<lparr>isGlobalEnabled = False, fakeDate = None,
                        tickStartTimestamp = None, isClockStopped = True\<rparr>"
  by (simp add: getGlobalState_def storage_get_def DEFAULT_STATE_def)

theorem getGlobalState_default_witness:
  "get_raises unreadable_storage \<and> item empty_storage = None
   \<and> getGlobalState unreadable_storage = DEFAULT_STATE
   \<and> getGlobalState empty_storage = DEFAULT_STATE"
  using getGlobalState_default [of unreadable_storage] getGlobalState_default [of empty_storage]
  by (simp add: unreadable_storage_def empty_storage_def)

text \<open>
  Claim C3, as amended. After every completed \<open>updateGlobalClockState\<close>, whatever its
  arguments and the state before, the persisted state has the clock stopped exactly when
  it has no tick anchor: with \<open>isClockStopped = false\<close> and no (or an empty) anchor
  argument the anchor stored is \<open>Date.now().toString()\<close>, a non-empty anchor argument
  is kept, and with \<open>isClockStopped = true\<close> the anchor stored is null whatever was
  passed.
\<close>

theorem updateGlobalClockState_invariant:
  assumes "updateGlobalClockState now stopped tick s = (s', None)"
  shows "clock_invariant (persisted s')
         \<and> isClockStopped (persisted s') = stopped
         \<and> tickStartTimestamp (persisted s') =
             (if stopped then None else if truthy tick then tick else Some (toString now))"
proof -
  let ?final = "if \<not> stopped \<and> \<not> truthy tick then Some (toString now)
                else if stopped then None else tick"
  have "setGlobalState (no_keys\<lparr>p_isClockStopped := Some stopped,
                                  p_tickStartTimestamp := Some ?final\<rparr>) s = (s', None)"
    using assms by (simp add: updateGlobalClockState_def Let_def)
  then have p: "persisted s' = spread (getGlobalState s)
                  (no_keys\<lparr>p_isClockStopped := Some stopped, p_tickStartTimestamp := Some ?final\<rparr>)"
    by (rule setGlobalState_completed)
  have stopped': "isClockStopped (persisted s') = stopped"
    by (simp add: p spread_def no_keys_def)
  have tick': "tickStartTimestamp (persisted s') = ?final"
    by (simp add: p spread_def no_keys_def)
  have "stopped \<longleftrightarrow> ?final = None"
    by (auto simp: truthy_def split: option.splits)
  then have "clock_invariant (persisted s')"
    unfolding clock_invariant_def stopped' tick' .
  moreover have "?final = (if stopped then None else if truthy tick then tick else Some (toString now))"
    by simp
  ultimately show ?thesis
    using stopped' tick' by simp
qed

theorem updateGlobalClockState_invariant_witness:
  "updateGlobalClockState 1700000000000 False None empty_storage =
     (\<lparr>item = Some (all_keys \<lparr>isGlobalEnabled = False, fakeDate = None,
                               tickStartTimestamp = Some ''1700000000000'',
                               isClockStopped = False\<rparr>),
       get_raises = False, set_raises = False\<rparr>, None)
   \<and> clock_invariant (persisted (fst (updateGlobalClockState 1700000000000 False None empty_storage)))"
proof -
  have run: "updateGlobalClockState 1700000000000 False None empty_storage =
     (\<lparr>item = Some (all_keys \<lparr>isGlobalEnabled = False, fakeDate = None,
                               tickStartTimestamp = Some ''1700000000000'',
                               isClockStopped = False\<rparr>),
       get_raises = False, set_raises = False\<rparr>, None)"
    by (simp add: updateGlobalClockState_def setGlobalState_cases empty_storage_def
        getGlobalState_def storage_get_def DEFAULT_STATE_def spread_def no_keys_def truthy_def
        toString_def natToString.simps digitChar_def)
  show ?thesis
    using updateGlobalClockState_invariant [OF run] by (simp add: run)
qed

text \<open>
  Claim C3 as it is written fails for the write operation itself: \<open>setGlobalState\<close>
  merges the partial it is given and checks nothing. On an empty store the partial
  \<open>{isClockStopped: false}\<close> completes and persists a running clock with no tick
  anchor.
\<close>

theorem setGlobalState_invariant_counterexample:
  "snd (setGlobalState (no_keys\<lparr>p_isClockStopped := Some False\<rparr>) empty_storage) = None
   \<and> persisted (fst (setGlobalState (no_keys\<lparr>p_isClockStopped := Some False\<rparr>) empty_storage))
       = \<lparr>isGlobalEnabled = False, fakeDate = None, tickStartTimestamp = None,
          isClockStopped = False\<rparr>
   \<and> \<not> clock_invariant
         (persisted (fst (setGlobalState (no_keys\<lparr>p_isClockStopped := Some False\<rparr>) empty_storage)))"
  by (simp add: setGlobalState_cases empty_storage_def getGlobalState_def storage_get_def
      DEFAULT_STATE_def spread_def no_keys_def persisted_def all_keys_def clock_invariant_def)

section \<open>Writes of the global configuration\<close>

lemma getGlobalState_enabled: "getGlobalState enabled_storage = enabled_state"
  by (simp add: getGlobalState_persisted enabled_storage_def persisted_def)

lemma api_update_empty:
  "updateGlobalStateFromAPI 1700000000000 (Some ''2023-12-25T10:30:00.000Z'') (Some True) empty_storage
     = (enabled_storage, \<lparr>success = True, error = None,
                            message = Some ''Global state updated successfully''\<rparr>)"
  by (simp add: updateGlobalStateFromAPI_def setGlobalState_cases empty_storage_def
      enabled_storage_def enabled_state_def spread_def)

lemma globalDisable_state:
  assumes "\<not> set_raises s" and "\<not> get_raises s"
  shows "globalDisable now s = (s\<lparr>item := Some (all_keys DEFAULT_STATE)\<rparr>, None)"
  using assms
  by (simp add: globalDisable_def and_then_def setGlobalEnabled_def updateGlobalFakeDate_def
      updateGlobalClockState_def setGlobalState_cases getGlobalState_persisted spread_def
      no_keys_def DEFAULT_STATE_def)

text \<open>
  The popup's two paths and the bridge's update leave the persisted state with a fake
  date exactly when the global switch is on (while the storage works).
\<close>

lemma globalDisable_enabled_invariant:
  assumes "\<not> set_raises s" and "\<not> get_raises s"
  shows "enabled_invariant (persisted (fst (globalDisable now s)))"
  using assms by (simp add: globalDisable_state enabled_invariant_def DEFAULT_STATE_def)

lemma globalEnable_enabled_invariant:
  assumes "\<not> set_raises s" and "\<not> get_raises s" and "parseDate d = Some parsed"
  shows "snd (globalEnable parseDate now d stopped s) = None
         \<and> enabled_invariant (persisted (fst (globalEnable parseDate now d stopped s)))
         \<and> isGlobalEnabled (persisted (fst (globalEnable parseDate now d stopped s)))
         \<and> fakeDate (persisted (fst (globalEnable parseDate now d stopped s))) = Some parsed"
  using assms
  by (simp add: globalEnable_def and_then_def setGlobalEnabled_def updateGlobalFakeDate_def
      updateGlobalClockState_def setGlobalState_cases getGlobalState_persisted spread_def
      no_keys_def enabled_invariant_def Let_def)

lemma handleUpdateGlobalState_enabled_invariant:
  assumes "\<not> set_raises s"
  shows "enabled_invariant (persisted (fst (handleUpdateGlobalState h now (Str d) stopped s)))
         \<or> fst (handleUpdateGlobalState h now (Str d) stopped s) = s"
  using assms
  by (simp add: handleUpdateGlobalState_def updateGlobalStateFromAPI_def setGlobalState_cases
      spread_def enabled_invariant_def Let_def)

text \<open>
  Claim C4 asks that after every completed write path the stored fake date is null
  exactly when the global switch is off. The bridge's disable request does not keep it:
  it sends the update message with a null fake date, and the coordinator's handler writes
  \<open>isGlobalEnabled: true\<close> whatever the message holds. Whenever the write completes,
  the persisted state has no fake date and the switch on.
\<close>

theorem handleDisableTimeTravel_keeps_enabled:
  assumes "\<not> set_raises s"
  shows "success (snd (handleDisableTimeTravel now s))
         \<and> persisted (fst (handleDisableTimeTravel now s)) =
             \<lparr>isGlobalEnabled = True, fakeDate = None, tickStartTimestamp = None,
              isClockStopped = True\<rparr>
         \<and> \<not> enabled_invariant (persisted (fst (handleDisableTimeTravel now s)))"
  using assms
  by (simp add: handleDisableTimeTravel_def updateGlobalStateFromAPI_def setGlobalState_cases
      spread_def enabled_invariant_def)

text \<open>
  The failing input: the disable request on a store that holds an enabled configuration.
  A later read of the global state reports \<open>isGlobalEnabled = true\<close> with a null
  fake date.
\<close>

theorem handleDisableTimeTravel_keeps_enabled_witness:
  "\<not> set_raises enabled_storage
   \<and> getGlobalState (fst (handleDisableTimeTravel 1700000000500 enabled_storage)) =
       \<lparr>isGlobalEnabled = True, fakeDate = None, tickStartTimestamp = None,
        isClockStopped = True\<rparr>"
  using handleDisableTimeTravel_keeps_enabled [of enabled_storage 1700000000500]
  by (simp add: enabled_storage_def getGlobalState_persisted handleDisableTimeTravel_def
      updateGlobalStateFromAPI_def setGlobalState_cases)

text \<open>
  Claim C6. A request whose fake date is missing, not a string, empty, or a string that
  the Date constructor does not accept is answered by the bridge with \<open>success: false\<close>
  and an error text, and the store is what it was; the popup's
  \<open>setGlobalFakeTime(true, d)\<close> with a date string that \<open>parseDate\<close> rejects raises
  \<open>Invalid date format!\<close> before any write.
\<close>

theorem invalid_fakeInstant_rejected:
  "((case fd of Str d \<Rightarrow> d = [] \<or> Date_parse h d = NaN | _ \<Rightarrow> True) \<longrightarrow>
      fst (handleUpdateGlobalState h now fd stopped s) = s
      \<and> \<not> success (snd (handleUpdateGlobalState h now fd stopped s))
      \<and> error (snd (handleUpdateGlobalState h now fd stopped s)) \<noteq> None)
   \<and> (d \<noteq> [] \<and> parseDate d = None \<longrightarrow>
        setGlobalFakeTime parseDate now True (Some d) stopped' s = (s, Some ''Invalid date format!''))"
  by (cases fd) (simp_all add: handleUpdateGlobalState_def setGlobalFakeTime_def globalEnable_def)

text \<open>
  The specification's malformed input \<open>not-a-date\<close>: an error, and the global state read
  afterwards is the one read before.
\<close>

theorem invalid_fakeInstant_rejected_witness:
  "Date_parse demo_host ''not-a-date'' = NaN
   \<and> handleUpdateGlobalState demo_host 1700000000500 (Str ''not-a-date'') (Some True) enabled_storage
       = (enabled_storage, \<lparr>success = False, error = Some ''Invalid date format'', message = None\<rparr>)
   \<and> handleGetGlobalState
         (fst (handleUpdateGlobalState demo_host 1700000000500 (Str ''not-a-date'') (Some True)
                 enabled_storage)) = handleGetGlobalState enabled_storage"
  using invalid_fakeInstant_rejected [where fd = "Str ''not-a-date''" and h = demo_host
      and now = 1700000000500 and stopped = "Some True" and s = enabled_storage]
  by (simp add: demo_host_def demo_parse_def handleUpdateGlobalState_def)

section \<open>The Propagation Coordinator: reloads and seeding\<close>

lemma applyGlobalStateToTab_reload:
  assumes "tabs_get (tabs w) i = Some t" and "tab_url t = Some url" and "url \<noteq> []"
    and "\<not> isRestrictedUrl url" and "isAllowedWebsite al url"
    and "isGlobalEnabled (getGlobalState (store w))"
    and "truthy (fakeDate (getGlobalState (store w)))"
    and "i \<notin> reloadedTabs w"
  shows "applyGlobalStateToTab al i w =
           w\<lparr>reloadedTabs := insert i (reloadedTabs w), reloads := reloads w @ [i]\<rparr>"
  using assms by (simp add: applyGlobalStateToTab_def)

lemma applyGlobalStateToTab_seed:
  assumes "tabs_get (tabs w) i = Some t" and "tab_url t = Some url" and "url \<noteq> []"
    and "\<not> isRestrictedUrl url" and "isAllowedWebsite al url"
    and "\<not> (isGlobalEnabled (getGlobalState (store w))
             \<and> truthy (fakeDate (getGlobalState (store w))) \<and> i \<notin> reloadedTabs w)"
  shows "applyGlobalStateToTab al i w =
           w\<lparr>sessions := (sessions w)(i := seed (getGlobalState (store w)) (sessions w i))\<rparr>"
  using assms by (auto simp: applyGlobalStateToTab_def Let_def)

lemma applyGlobalStateToTab_potential:
  "reload_potential t (applyGlobalStateToTab al i w) \<le> reload_potential t w"
  by (auto simp: applyGlobalStateToTab_def reload_potential_def Let_def
      split: option.splits)

lemma applyToTabs_potential:
  "reload_potential t (applyToTabs al ts w) \<le> reload_potential t w"
proof (induction ts arbitrary: w)
  case Nil
  then show ?case by simp
next
  case (Cons x xs)
  let ?w1 = "if eligible al x
             then (case tab_id x of Some i \<Rightarrow> applyGlobalStateToTab al i w | None \<Rightarrow> w)
             else w"
  have "reload_potential t ?w1 \<le> reload_potential t w"
    by (simp add: applyGlobalStateToTab_potential split: option.splits)
  moreover have "reload_potential t (applyToTabs al xs ?w1) \<le> reload_potential t ?w1"
    by (rule Cons.IH)
  ultimately show ?case by simp
qed

lemma applyGlobalStateToAllTabs_potential:
  "reload_potential t (applyGlobalStateToAllTabs al w) \<le> reload_potential t w"
  by (simp add: applyGlobalStateToAllTabs_def Let_def applyToTabs_potential)

lemma reload_potential_tabs:
  "reload_potential t (w\<lparr>tabs := ts\<rparr>) = reload_potential t w"
  by (simp add: reload_potential_def)

lemma tabs_onCreated_potential:
  "reload_potential t (tabs_onCreated al x w) \<le> reload_potential t w"
  by (simp add: tabs_onCreated_def applyGlobalStateToTab_potential split: option.splits)

lemma tabs_onUpdated_potential:
  "reload_potential t (tabs_onUpdated al i loading x w) \<le> reload_potential t w"
  by (simp add: tabs_onUpdated_def applyGlobalStateToTab_potential split: option.splits)

lemma handle_potential:
  "reload_potential t (handle al e w)
     \<le> reload_potential t w + (if guard_cleared t e then 1 else 0)"
proof (cases e)
  case StorageChanged
  have "reload_potential t (storage_onChanged al w) \<le> reload_potential t (w\<lparr>reloadedTabs := {}\<rparr>)"
    unfolding storage_onChanged_def by (rule applyGlobalStateToAllTabs_potential)
  also have "\<dots> \<le> reload_potential t w + 1"
    by (simp add: reload_potential_def)
  finally show ?thesis
    using StorageChanged by (simp add: guard_cleared_def)
next
  case (TabCreated x)
  show ?thesis
    using TabCreated tabs_onCreated_potential [of t al x "w\<lparr>tabs := tabs w @ [x]\<rparr>"]
    by (simp add: reload_potential_tabs guard_cleared_def)
next
  case (TabUpdated i loading x)
  show ?thesis
    using TabUpdated
      tabs_onUpdated_potential [of t al i loading x "w\<lparr>tabs := replace_tab i x (tabs w)\<rparr>"]
    by (simp add: reload_potential_tabs guard_cleared_def)
next
  case (TabRemoved i)
  then show ?thesis
    by (auto simp: tabs_onRemoved_def reload_potential_def guard_cleared_def)
next
  case ReapplyGlobalState
  then show ?thesis
    using applyGlobalStateToAllTabs_potential [of t al w] by (simp add: guard_cleared_def)
next
  case (Active i)
  then show ?thesis
    by (simp add: reload_potential_def guard_cleared_def)
next
  case (UpdateGlobalStateFromAPI now fd stopped)
  then show ?thesis
    by (simp add: reload_potential_def guard_cleared_def)
qed

lemma run_potential:
  "reload_potential t (run al evs w)
     \<le> reload_potential t w + length (filter (guard_cleared t) evs)"
proof (induction evs arbitrary: w)
  case Nil
  then show ?case by simp
next
  case (Cons e es)
  have "reload_potential t (run al es (handle al e w))
          \<le> reload_potential t (handle al e w) + length (filter (guard_cleared t) es)"
    by (rule Cons.IH)
  also have "\<dots> \<le> reload_potential t w + (if guard_cleared t e then 1 else 0)
                    + length (filter (guard_cleared t) es)"
    using handle_potential [of t al e w] by simp
  finally show ?case by (simp split: if_splits)
qed

text \<open>
  Claim C2, as amended. Over any sequence of events, the forced reloads of a tab number
  at most one (none, if the tab is already marked in \<open>reloadedTabs\<close>) plus the number
  of events that empty its mark: the change notifications of the global configuration,
  each of which clears the whole set, and the removals of the tab. While a tab stays
  marked, no evaluation pass reloads it.
\<close>

theorem forced_reloads_bounded:
  "count_list (reloads (run al evs w)) t
     \<le> count_list (reloads w) t + (if t \<in> reloadedTabs w then 0 else 1)
        + length (filter (guard_cleared t) evs)"
  using run_potential [of t al evs w] by (simp add: reload_potential_def split: if_splits)

subsection \<open>A run with two configuration changes\<close>

lemma demo_url:
  "\<not> isRestrictedUrl ''https://example.com/app''"
  "isAllowedWebsite demo_allowed ''https://example.com/app''"
  by (simp_all add: isRestrictedUrl_def isAllowedWebsite_def restrictedProtocols_def
      demo_allowed_def startsWith_def)

lemma demo_eligible: "eligible demo_allowed demo_tab"
  by (simp add: eligible_def demo_tab_def demo_url)

lemma demo_tabs_get: "tabs_get [demo_tab] 7 = Some demo_tab"
  by (simp add: tabs_get_def demo_tab_def)

lemma demo_tab_fields: "tab_id demo_tab = Some 7" "tab_url demo_tab = Some ''https://example.com/app''"
  by (simp_all add: demo_tab_def)

lemma enabled_state_fields: "isGlobalEnabled enabled_state" "truthy (fakeDate enabled_state)"
  by (simp_all add: enabled_state_def truthy_def)

lemma seed_enabled: "seed enabled_state (Items Map.empty) = stopped_session"
  by (simp add: seed_def seed_steps_def enabled_state_def stopped_session_def)

lemma step1:
  "handle demo_allowed
     (UpdateGlobalStateFromAPI 1700000000000 (Some ''2023-12-25T10:30:00.000Z'') (Some True))
     demo_world = demo_world\<lparr>store := enabled_storage\<rparr>"
  by (simp add: api_update_empty demo_world_def)

lemma step2:
  "handle demo_allowed StorageChanged (demo_world\<lparr>store := enabled_storage\<rparr>) = reloading_world"
proof -
  let ?w = "demo_world\<lparr>store := enabled_storage, reloadedTabs := {}\<rparr>"
  have "applyGlobalStateToTab demo_allowed 7 ?w =
          ?w\<lparr>reloadedTabs := insert 7 (reloadedTabs ?w), reloads := reloads ?w @ [7]\<rparr>"
    by (rule applyGlobalStateToTab_reload [where t = demo_tab and url = "''https://example.com/app''"])
      (simp_all add: demo_world_def demo_tabs_get demo_tab_fields demo_url
        getGlobalState_enabled enabled_state_fields)
  then show ?thesis
    by (simp add: storage_onChanged_def applyGlobalStateToAllTabs_def demo_world_def
        getGlobalState_enabled enabled_state_fields demo_eligible demo_tab_fields
        reloading_world_def)
qed

lemma step3: "handle demo_allowed (TabUpdated 7 True demo_tab) reloading_world = seeded_world"
proof -
  let ?w = "reloading_world\<lparr>tabs := replace_tab 7 demo_tab (tabs reloading_world)\<rparr>"
  have "applyGlobalStateToTab demo_allowed 7 ?w =
          ?w\<lparr>sessions := (sessions ?w)(7 := seed (getGlobalState (store ?w)) (sessions ?w 7))\<rparr>"
    by (rule applyGlobalStateToTab_seed [where t = demo_tab and url = "''https://example.com/app''"])
      (simp_all add: reloading_world_def demo_tabs_get demo_tab_fields demo_url)
  then show ?thesis
    by (simp add: tabs_onUpdated_def demo_tab_fields demo_url reloading_world_def
        getGlobalState_enabled seed_enabled seeded_world_def)
qed

lemma getGlobalState_second: "getGlobalState second_storage = second_state"
  by (simp add: getGlobalState_persisted second_storage_def persisted_def)

lemma second_state_fields: "isGlobalEnabled second_state" "truthy (fakeDate second_state)"
  by (simp_all add: second_state_def truthy_def)

lemma step4:
  "handle demo_allowed
     (UpdateGlobalStateFromAPI 1700000000500 (Some ''1970-01-01T00:00:00.000Z'') (Some True))
     seeded_world = seeded_world\<lparr>store := second_storage\<rparr>"
  by (simp add: updateGlobalStateFromAPI_def setGlobalState_cases seeded_world_def
      enabled_storage_def second_storage_def second_state_def spread_def)

lemma step5:
  "handle demo_allowed StorageChanged (seeded_world\<lparr>store := second_storage\<rparr>)
     = reloaded_twice_world"
proof -
  let ?w = "seeded_world\<lparr>store := second_storage, reloadedTabs := {}\<rparr>"
  have "applyGlobalStateToTab demo_allowed 7 ?w =
          ?w\<lparr>reloadedTabs := insert 7 (reloadedTabs ?w), reloads := reloads ?w @ [7]\<rparr>"
    by (rule applyGlobalStateToTab_reload [where t = demo_tab and url = "''https://example.com/app''"])
      (simp_all add: seeded_world_def demo_tabs_get demo_tab_fields demo_url
        getGlobalState_second second_state_fields)
  then show ?thesis
    by (simp add: storage_onChanged_def applyGlobalStateToAllTabs_def seeded_world_def
        getGlobalState_second second_state_fields demo_eligible demo_tab_fields
        reloaded_twice_world_def)
qed

lemma run_first_three: "run demo_allowed (take 3 two_updates) demo_world = seeded_world"
  by (simp add: two_updates_def step1 step2 step3 del: handle.simps)

lemma run_two_updates: "run demo_allowed two_updates demo_world = reloaded_twice_world"
  by (simp add: two_updates_def step1 step2 step3 step4 step5 del: handle.simps)

text \<open>
  From the seeded page, whose tab is marked, further loading, re-apply and tab-creation
  events force no second reload.
\<close>

theorem forced_reloads_bounded_witness:
  "count_list (reloads (run demo_allowed [TabUpdated 7 True demo_tab, ReapplyGlobalState,
                                          TabCreated demo_tab] seeded_world)) 7 \<le> 1"
  using forced_reloads_bounded [of demo_allowed
      "[TabUpdated 7 True demo_tab, ReapplyGlobalState, TabCreated demo_tab]" seeded_world 7]
  by (simp add: seeded_world_def guard_cleared_def)

text \<open>
  Claim C2 as it is written fails: the change listener empties \<open>reloadedTabs\<close> on
  every change of the global configuration. The first update reloads tab 7 and marks it,
  and the navigation of that reload seeds the page without a reload; a second update
  arrives, its notification clears the mark, and the same tab is reloaded again, with no
  navigation other than the reload's own in between.
\<close>

theorem second_forced_reload_counterexample:
  "7 \<in> reloadedTabs (run demo_allowed (take 3 two_updates) demo_world)
   \<and> reloads (run demo_allowed (take 3 two_updates) demo_world) = [7]
   \<and> drop 3 two_updates =
        [UpdateGlobalStateFromAPI 1700000000500 (Some ''1970-01-01T00:00:00.000Z'') (Some True),
         StorageChanged]
   \<and> reloads (run demo_allowed two_updates demo_world) = [7, 7]"
  by (simp add: run_first_three run_two_updates seeded_world_def reloaded_twice_world_def)
    (simp add: two_updates_def)

subsection \<open>A change to the disabled configuration\<close>

lemma getGlobalState_disabled: "getGlobalState disabled_storage = DEFAULT_STATE"
  by (simp add: getGlobalState_persisted disabled_storage_def persisted_def)

lemma popup_disable:
  "setGlobalFakeTime parseDate 1700000009000 False None None enabled_storage = (disabled_storage, None)"
  by (simp add: setGlobalFakeTime_def globalDisable_state enabled_storage_def disabled_storage_def)

lemma storage_onChanged_disabled:
  assumes "\<not> isGlobalEnabled (getGlobalState (store w))"
  shows "storage_onChanged al w = w\<lparr>reloadedTabs := {}\<rparr>"
  using assms by (simp add: storage_onChanged_def applyGlobalStateToAllTabs_def)

lemma seed_disabled:
  assumes "\<not> isGlobalEnabled g"
  shows "seed g (Items m) =
           Items (m(''timeTravelDate'' := None, ''timeTravelTickStartTimestamp'' := None))"
  using assms by (simp add: seed_def seed_steps_def split: option.splits)

lemma fakeNowDate_cleared:
  "fakeNowDate h (Items (m(''timeTravelDate'' := None, ''timeTravelTickStartTimestamp'' := None))) now
     = OriginalDate h now []"
  by (simp add: fakeNowDate_def session_eval)

text \<open>
  Claim C5, as amended. When the global configuration read by the change listener is
  disabled, the listener empties \<open>reloadedTabs\<close> and does nothing else: no tab is
  evaluated, seeded or reloaded. The disabled context state is seeded when
  \<open>applyGlobalStateToTab\<close> runs for one tab (at its creation or at the start of a
  navigation): on an allowed tab whose storage is accessible both keys are removed
  without a reload, and from then on \<open>fakeNowDate()\<close> is the real instant.
\<close>

theorem disabled_config_not_pushed:
  "(\<not> isGlobalEnabled (getGlobalState (store w)) \<longrightarrow>
      storage_onChanged al w = w\<lparr>reloadedTabs := {}\<rparr>)
   \<and> (tabs_get (tabs w) i = Some t \<and> tab_url t = Some url \<and> url \<noteq> []
        \<and> \<not> isRestrictedUrl url \<and> isAllowedWebsite al url
        \<and> \<not> isGlobalEnabled (getGlobalState (store w)) \<and> sessions w i = Items m \<longrightarrow>
        sessions (applyGlobalStateToTab al i w) i =
          Items (m(''timeTravelDate'' := None, ''timeTravelTickStartTimestamp'' := None))
        \<and> reloads (applyGlobalStateToTab al i w) = reloads w
        \<and> fakeNowDate h (sessions (applyGlobalStateToTab al i w) i) now = OriginalDate h now [])"
proof (intro conjI impI)
  assume "\<not> isGlobalEnabled (getGlobalState (store w))"
  then show "storage_onChanged al w = w\<lparr>reloadedTabs := {}\<rparr>"
    by (rule storage_onChanged_disabled)
next
  assume a: "tabs_get (tabs w) i = Some t \<and> tab_url t = Some url \<and> url \<noteq> []
        \<and> \<not> isRestrictedUrl url \<and> isAllowedWebsite al url
        \<and> \<not> isGlobalEnabled (getGlobalState (store w)) \<and> sessions w i = Items m"
  then have ap: "applyGlobalStateToTab al i w =
      w\<lparr>sessions := (sessions w)(i := seed (getGlobalState (store w)) (sessions w i))\<rparr>"
    by (intro applyGlobalStateToTab_seed [where t = t and url = url]) simp_all
  show s: "sessions (applyGlobalStateToTab al i w) i =
          Items (m(''timeTravelDate'' := None, ''timeTravelTickStartTimestamp'' := None))"
    using a by (simp add: ap seed_disabled)
  show "reloads (applyGlobalStateToTab al i w) = reloads w"
    by (simp add: ap)
  show "fakeNowDate h (sessions (applyGlobalStateToTab al i w) i) now = OriginalDate h now []"
    unfolding s by (rule fakeNowDate_cleared)
qed

text \<open>
  The page seeded with the frozen instant, after the popup has disabled the global mode:
  the change listener leaves it as it is and it still reads the fake instant; the next
  navigation of the tab restores real time.
\<close>

theorem disabled_config_not_pushed_witness:
  "\<not> isGlobalEnabled (getGlobalState (store stale_world))
   \<and> storage_onChanged demo_allowed stale_world = stale_world
   \<and> getTime (fakeNowDate demo_host (sessions stale_world 7) 1700000009000) = Num 1703500200000
   \<and> getTime (fakeNowDate demo_host
         (sessions (handle demo_allowed (TabUpdated 7 True demo_tab) stale_world) 7) 1700000009000)
       = Num 1700000009000"
proof -
  have d: "\<not> isGlobalEnabled (getGlobalState (store stale_world))"
    by (simp add: stale_world_def getGlobalState_disabled DEFAULT_STATE_def)
  have g: "tabs_get (tabs stale_world) 7 = Some demo_tab \<and>
        tab_url demo_tab = Some ''https://example.com/app'' \<and> ''https://example.com/app'' \<noteq> []
        \<and> \<not> isRestrictedUrl ''https://example.com/app''
        \<and> isAllowedWebsite demo_allowed ''https://example.com/app''
        \<and> \<not> isGlobalEnabled (getGlobalState (store stale_world))
        \<and> sessions stale_world 7 = Items [''timeTravelDate'' \<mapsto> ''2023-12-25T10:30:00.000Z'']"
    using d by (simp add: stale_world_def demo_tabs_get demo_tab_fields demo_url stopped_session_def)
  have h: "handle demo_allowed (TabUpdated 7 True demo_tab) stale_world
             = applyGlobalStateToTab demo_allowed 7 stale_world"
    by (simp add: tabs_onUpdated_def demo_tab_fields demo_url stale_world_def demo_tab_def)
  have stale: "getTime (fakeNowDate demo_host (sessions stale_world 7) 1700000009000)
                 = Num 1703500200000"
    by (simp add: stale_world_def stopped_session_def fakeNowDate_def session_eval
        getTickStartTimestamp_def demo_host_def demo_parse_def)
  note T = disabled_config_not_pushed [where w = stale_world and al = demo_allowed and i = 7
        and t = demo_tab and url = "''https://example.com/app''"
        and m = "[''timeTravelDate'' \<mapsto> ''2023-12-25T10:30:00.000Z'']"
        and h = demo_host and now = 1700000009000]
  have p1: "storage_onChanged demo_allowed stale_world = stale_world\<lparr>reloadedTabs := {}\<rparr>"
    using T d by blast
  have p2: "fakeNowDate demo_host (sessions (applyGlobalStateToTab demo_allowed 7 stale_world) 7)
              1700000009000 = OriginalDate demo_host 1700000009000 []"
    using T g by blast
  have same: "stale_world\<lparr>reloadedTabs := {}\<rparr> = stale_world"
    by (simp add: stale_world_def)
  show ?thesis
    using d by (simp add: p1 same stale h p2 del: handle.simps)
qed

text \<open>
  Claim C5 as it is written fails: the popup's disable path completes on the store, the
  change notifications of its writes run, and the open, seeded tab keeps its fake-date
  key, is not reloaded, and goes on reading the fake instant.
\<close>

theorem disable_not_propagated_counterexample:
  "setGlobalFakeTime demo_parseDate 1700000009000 False None None (store seeded_world)
     = (disabled_storage, None)
   \<and> run demo_allowed [StorageChanged, StorageChanged, StorageChanged]
         (seeded_world\<lparr>store := disabled_storage\<rparr>) = stale_world
   \<and> sessions stale_world 7 = sessions seeded_world 7
   \<and> reloads stale_world = reloads seeded_world
   \<and> getFromStorage (sessions stale_world 7) FAKE_DATE_STORAGE_KEY
       = Some ''2023-12-25T10:30:00.000Z''
   \<and> getTime (fakeNowDate demo_host (sessions stale_world 7) 1700000009000) = Num 1703500200000"
proof -
  have a: "storage_onChanged demo_allowed (seeded_world\<lparr>store := disabled_storage\<rparr>) = stale_world"
    by (simp add: storage_onChanged_disabled getGlobalState_disabled DEFAULT_STATE_def)
      (simp add: seeded_world_def stale_world_def)
  have b: "storage_onChanged demo_allowed stale_world = stale_world"
    by (simp add: storage_onChanged_disabled stale_world_def getGlobalState_disabled DEFAULT_STATE_def)
  show ?thesis
    by (simp add: a b)
      (simp add: seeded_world_def popup_disable stale_world_def stopped_session_def
        fakeNowDate_def session_eval getTickStartTimestamp_def demo_host_def demo_parse_def)
qed

end
